theory Spec2Isabelle
  imports Main "HOL-Library.AList"
begin

section \<open>JavaScript values\<close>

text \<open>
  The values a record field can hold at run time, by the kinds the ORM tells apart
  (\<^verbatim>\<open>typeof\<close>, \<^verbatim>\<open>instanceof Date\<close>, \<^verbatim>\<open>Array.isArray\<close>,
  \<^verbatim>\<open>isNaN\<close>).  A number is an integer or NaN (\<open>None\<close>); fractional and infinite
  doubles are outside this model.  A Date carries its time value in milliseconds, \<open>None\<close>
  for an Invalid Date.  An object is its own enumerable properties in insertion order
  (property names are taken not to be array indices and not to shadow
  \<^verbatim>\<open>Object.prototype\<close>).
\<close>

datatype jsval =
    VUndefined
  | VNull
  | VBoolean bool
  | VNumber "int option"
  | VString string
  | VDate "int option"
  | VObject "(string \<times> jsval) list"
  | VArray "jsval list"

type_synonym jsobject = "(string \<times> jsval) list"

datatype FieldType = FString | FNumber | FBoolean | FDate | FObject | FArray | FOther string

type_synonym SchemaDefinition = "(string \<times> FieldType) list"

datatype error = Error string | TypeError string | RangeError string

text \<open>
  A model class: its table name, schema and index declaration.  The three methods of the
  platform's \<^verbatim>\<open>Date\<close> that the ORM calls are parameters of the model, since their
  code is the JavaScript engine's: \<^verbatim>\<open>Date.prototype.toISOString\<close> on a valid time
  value, \<^verbatim>\<open>new Date(string)\<close> (the time value parsed, \<open>None\<close> for an Invalid
  Date) and \<^verbatim>\<open>Date.prototype.toString\<close>.
\<close>

record model =
  tableName :: string
  schema :: SchemaDefinition
  indexes :: "string list"
  toISOString :: "int \<Rightarrow> string"
  newDate :: "string \<Rightarrow> int option"
  dateToString :: "int option \<Rightarrow> string"

subsection \<open>Built-in operations\<close>

definition has_key :: "string \<Rightarrow> jsobject \<Rightarrow> bool" where
  \<comment> \<open>\<^verbatim>\<open>k in obj\<close>\<close>
  "has_key k obj = (map_of obj k \<noteq> None)"

definition get_prop :: "jsobject \<Rightarrow> string \<Rightarrow> jsval" where
  \<comment> \<open>\<^verbatim>\<open>obj[k]\<close>\<close>
  "get_prop obj k = (case map_of obj k of None \<Rightarrow> VUndefined | Some v \<Rightarrow> v)"

fun js_typeof :: "jsval \<Rightarrow> string" where
  "js_typeof VUndefined = ''undefined''"
| "js_typeof VNull = ''object''"
| "js_typeof (VBoolean b) = ''boolean''"
| "js_typeof (VNumber n) = ''number''"
| "js_typeof (VString s) = ''string''"
| "js_typeof (VDate d) = ''object''"
| "js_typeof (VObject ps) = ''object''"
| "js_typeof (VArray xs) = ''object''"

fun is_array :: "jsval \<Rightarrow> bool" where
  \<comment> \<open>\<^verbatim>\<open>Array.isArray(v)\<close>\<close>
  "is_array (VArray xs) = True"
| "is_array _ = False"

fun falsy :: "jsval \<Rightarrow> bool" where
  \<comment> \<open>\<^verbatim>\<open>!v\<close>\<close>
  "falsy VUndefined = True"
| "falsy VNull = True"
| "falsy (VBoolean b) = (\<not> b)"
| "falsy (VNumber n) = (n = None \<or> n = Some 0)"
| "falsy (VString s) = (s = [])"
| "falsy (VDate d) = False"
| "falsy (VObject ps) = False"
| "falsy (VArray xs) = False"

fun strict_eq :: "jsval \<Rightarrow> jsval \<Rightarrow> bool" where
  \<comment> \<open>\<^verbatim>\<open>a === b\<close>.  Primitives compare by value and NaN differs from itself.  Dates,
      objects and arrays compare by reference; references are not tracked, and the two
      operands are taken to be distinct allocations: wherever the ORM compares, one side
      was just built by \<^verbatim>\<open>deserialize\<close> from what the storage returned and the
      other is the caller's.\<close>
  "strict_eq VUndefined VUndefined = True"
| "strict_eq VNull VNull = True"
| "strict_eq (VBoolean a) (VBoolean b) = (a = b)"
| "strict_eq (VNumber (Some a)) (VNumber (Some b)) = (a = b)"
| "strict_eq (VString a) (VString b) = (a = b)"
| "strict_eq _ _ = False"

fun same_value_zero :: "jsval \<Rightarrow> jsval \<Rightarrow> bool" where
  \<comment> \<open>the comparison of \<^verbatim>\<open>Array.prototype.includes\<close>: as \<^verbatim>\<open>===\<close>, but NaN
      equals NaN\<close>
  "same_value_zero (VNumber None) (VNumber None) = True"
| "same_value_zero a b = strict_eq a b"

function show_digits :: "int \<Rightarrow> string" where
  \<comment> \<open>the decimal digits of a natural number\<close>
  "show_digits n =
     (if n < 10 then [''0123456789'' ! nat n]
      else show_digits (n div 10) @ [''0123456789'' ! nat (n mod 10)])"
  by pat_completeness auto
termination
  by (relation "measure nat") auto

declare show_digits.simps [simp del]

definition show_int :: "int \<Rightarrow> string" where
  "show_int i = (if i < 0 then ''-'' @ show_digits (- i) else show_digits i)"

fun join :: "string \<Rightarrow> string list \<Rightarrow> string" where
  "join sep [] = []"
| "join sep [s] = s"
| "join sep (s # t # ts) = s @ sep @ join sep (t # ts)"

fun to_string :: "model \<Rightarrow> jsval \<Rightarrow> string" where
  \<comment> \<open>\<^verbatim>\<open>String(v)\<close>, also the coercion of a template literal.  Numbers print in
      decimal (the model's integers stay below the exponent notation of large doubles);
      a plain object prints as \<^verbatim>\<open>[object Object]\<close>; an array joins its elements
      with commas, null and undefined elements printing as nothing.\<close>
  "to_string M VUndefined = ''undefined''"
| "to_string M VNull = ''null''"
| "to_string M (VBoolean b) = (if b then ''true'' else ''false'')"
| "to_string M (VNumber None) = ''NaN''"
| "to_string M (VNumber (Some n)) = show_int n"
| "to_string M (VString s) = s"
| "to_string M (VDate d) = dateToString M d"
| "to_string M (VObject ps) = ''[object Object]''"
| "to_string M (VArray xs) =
     join '','' (map (\<lambda>x. if x = VUndefined \<or> x = VNull then [] else to_string M x) xs)"

definition starts_with :: "string \<Rightarrow> string \<Rightarrow> bool" where
  \<comment> \<open>\<^verbatim>\<open>key.startsWith(prefix)\<close>\<close>
  "starts_with p s = (take (length p) s = p)"

fun replace_first :: "string \<Rightarrow> string \<Rightarrow> string" where
  \<comment> \<open>\<^verbatim>\<open>s.replace(p, '')\<close> with a string pattern: the first occurrence is removed\<close>
  "replace_first p [] = []"
| "replace_first p (c # cs) =
     (if starts_with p (c # cs) then drop (length p) (c # cs) else c # replace_first p cs)"

section \<open>Schema validation\<close>

definition quoted :: "string \<Rightarrow> string" where
  "quoted s = [CHR 0x27] @ s @ [CHR 0x27]"

fun validateField :: "jsval \<Rightarrow> FieldType \<Rightarrow> string \<Rightarrow> error + unit" where
  "validateField v FString fieldName =
     (if js_typeof v \<noteq> ''string''
      then Inl (Error (''Field '' @ quoted fieldName @ '' must be a string, got '' @ js_typeof v))
      else Inr ())"
| "validateField v FNumber fieldName =
     (if js_typeof v \<noteq> ''number'' \<or> v = VNumber None
      then Inl (Error (''Field '' @ quoted fieldName @ '' must be a number, got '' @ js_typeof v))
      else Inr ())"
| "validateField v FBoolean fieldName =
     (if js_typeof v \<noteq> ''boolean''
      then Inl (Error (''Field '' @ quoted fieldName @ '' must be a boolean, got '' @ js_typeof v))
      else Inr ())"
| "validateField v FDate fieldName =
     (case v of
        VDate (Some t) \<Rightarrow> Inr ()
      | _ \<Rightarrow> Inl (Error (''Field '' @ quoted fieldName @ '' must be a valid Date, got ''
                         @ js_typeof v)))"
| "validateField v FObject fieldName =
     (if js_typeof v \<noteq> ''object'' \<or> v = VNull \<or> is_array v
      then Inl (Error (''Field '' @ quoted fieldName @ '' must be an object, got '' @ js_typeof v))
      else Inr ())"
| "validateField v FArray fieldName =
     (case v of
        VArray xs \<Rightarrow> Inr ()
      | _ \<Rightarrow> Inl (Error (''Field '' @ quoted fieldName @ '' must be an array, got ''
                         @ js_typeof v)))"
| "validateField v (FOther ty) fieldName = Inl (Error (''Unknown field type: '' @ ty))"

fun validateFields :: "SchemaDefinition \<Rightarrow> jsobject \<Rightarrow> error + unit" where
  "validateFields [] data = Inr ()"
| "validateFields ((fieldName, fieldType) # rest) data =
     (if \<not> has_key fieldName data
      then Inl (Error (''Missing required field: '' @ fieldName))
      else (case validateField (get_prop data fieldName) fieldType fieldName of
              Inl e \<Rightarrow> Inl e
            | Inr u \<Rightarrow> validateFields rest data))"

definition validateSchema :: "model \<Rightarrow> jsobject \<Rightarrow> error + unit" where
  "validateSchema M data = validateFields (schema M) data"

section \<open>The storage\<close>

text \<open>
  The storage behind a model, as the test suite's \<^verbatim>\<open>MockDurableObjectStorage\<close>
  has it: a \<^verbatim>\<open>Map\<close> from keys to values, which keeps insertion order (setting an
  existing key keeps its place).  A key holds what the ORM stores there: a serialized record
  or an array of identifiers.  \<open>writes\<close> is the trace of the \<^verbatim>\<open>put\<close> and
  \<^verbatim>\<open>delete\<close> calls made so far, oldest first.
\<close>

datatype stored = SRec jsobject | SIds "jsval list"

datatype backend_call = Put string stored | Delete string

record storage =
  entries :: "(string \<times> stored) list"
  writes :: "backend_call list"

definition empty_storage :: storage where
  "empty_storage = \<lparr> entries = [], writes = [] \<rparr>"

definition st_get :: "string \<Rightarrow> storage \<Rightarrow> stored option" where
  "st_get k st = map_of (entries st) k"

definition st_put :: "string \<Rightarrow> stored \<Rightarrow> storage \<Rightarrow> storage" where
  "st_put k v st =
     \<lparr> entries = AList.update k v (entries st), writes = writes st @ [Put k v] \<rparr>"

definition st_delete :: "string \<Rightarrow> storage \<Rightarrow> storage" where
  "st_delete k st =
     \<lparr> entries = AList.delete k (entries st), writes = writes st @ [Delete k] \<rparr>"

definition st_list :: "string \<Rightarrow> storage \<Rightarrow> (string \<times> stored) list" where
  \<comment> \<open>\<^verbatim>\<open>list({ prefix })\<close>\<close>
  "st_list p st = filter (\<lambda>kv. starts_with p (fst kv)) (entries st)"

section \<open>Keys and the record codec\<close>

definition getRecordKey :: "model \<Rightarrow> jsval \<Rightarrow> string" where
  "getRecordKey M rid = tableName M @ '':'' @ to_string M rid"

definition getIndexPrefix :: "model \<Rightarrow> string \<Rightarrow> string" where
  "getIndexPrefix M field = ''index:'' @ tableName M @ '':'' @ field @ '':''"

definition getIndexKey :: "model \<Rightarrow> string \<Rightarrow> jsval \<Rightarrow> error + string" where
  \<comment> \<open>\<^verbatim>\<open>toISOString\<close> throws a RangeError on an Invalid Date\<close>
  "getIndexKey M field v =
     (case v of
        VDate None \<Rightarrow> Inl (RangeError ''Invalid time value'')
      | VDate (Some t) \<Rightarrow> Inr (getIndexPrefix M field @ toISOString M t)
      | _ \<Rightarrow> Inr (getIndexPrefix M field @ to_string M v))"

fun serialize :: "model \<Rightarrow> jsobject \<Rightarrow> error + jsobject" where
  "serialize M [] = Inr []"
| "serialize M ((k, v) # rest) =
     (case (case v of
              VDate None \<Rightarrow> Inl (RangeError ''Invalid time value'')
            | VDate (Some t) \<Rightarrow> Inr (VString (toISOString M t))
            | _ \<Rightarrow> Inr v) of
        Inl e \<Rightarrow> Inl e
      | Inr v' \<Rightarrow> (case serialize M rest of
                     Inl e \<Rightarrow> Inl e
                   | Inr rest' \<Rightarrow> Inr ((k, v') # rest')))"

definition deserializeField :: "model \<Rightarrow> string \<times> jsval \<Rightarrow> string \<times> jsval" where
  "deserializeField M kv =
     (case snd kv of
        VString s \<Rightarrow>
          (if map_of (schema M) (fst kv) = Some FDate then (fst kv, VDate (newDate M s)) else kv)
      | _ \<Rightarrow> kv)"

definition deserialize :: "model \<Rightarrow> jsobject \<Rightarrow> jsobject" where
  "deserialize M data = map (deserializeField M) data"

definition stored_entries :: "stored \<Rightarrow> jsobject" where
  \<comment> \<open>\<^verbatim>\<open>Object.entries\<close> of what a key holds; an array lists its elements under
      their indices\<close>
  "stored_entries v =
     (case v of
        SRec obj \<Rightarrow> obj
      | SIds xs \<Rightarrow> zip (map (\<lambda>i. show_digits (int i)) [0..<length xs]) xs)"

section \<open>Index maintenance\<close>

definition array_includes :: "jsval list \<Rightarrow> jsval \<Rightarrow> bool" where
  "array_includes xs x = list_ex (\<lambda>y. same_value_zero y x) xs"

fun updateIndexFields ::
  "model \<Rightarrow> jsval \<Rightarrow> jsobject \<Rightarrow> string list \<Rightarrow> storage \<Rightarrow> (error + unit) \<times> storage"
where
  "updateIndexFields M rid data [] st = (Inr (), st)"
| "updateIndexFields M rid data (indexField # rest) st =
     (case getIndexKey M indexField (get_prop data indexField) of
        Inl e \<Rightarrow> (Inl e, st)
      | Inr indexKey \<Rightarrow>
          (case st_get indexKey st of
             Some (SRec obj) \<Rightarrow> (Inl (TypeError ''existingIds.includes is not a function''), st)
           | Some (SIds existingIds) \<Rightarrow>
               updateIndexFields M rid data rest
                 (if \<not> array_includes existingIds rid
                  then st_put indexKey (SIds (existingIds @ [rid])) st else st)
           | None \<Rightarrow>
               updateIndexFields M rid data rest (st_put indexKey (SIds [rid]) st)))"

definition updateIndexes ::
  "model \<Rightarrow> jsval \<Rightarrow> jsobject \<Rightarrow> storage \<Rightarrow> (error + unit) \<times> storage"
where
  "updateIndexes M rid data st = updateIndexFields M rid data (indexes M) st"

fun removeFromIndexFields ::
  "model \<Rightarrow> jsval \<Rightarrow> jsobject \<Rightarrow> string list \<Rightarrow> storage \<Rightarrow> (error + unit) \<times> storage"
where
  "removeFromIndexFields M rid data [] st = (Inr (), st)"
| "removeFromIndexFields M rid data (indexField # rest) st =
     (case getIndexKey M indexField (get_prop data indexField) of
        Inl e \<Rightarrow> (Inl e, st)
      | Inr indexKey \<Rightarrow>
          (case st_get indexKey st of
             Some (SRec obj) \<Rightarrow> (Inl (TypeError ''existingIds.filter is not a function''), st)
           | other \<Rightarrow>
               (let existingIds = (case other of Some (SIds xs) \<Rightarrow> xs | _ \<Rightarrow> []);
                    filteredIds = filter (\<lambda>existingId. \<not> strict_eq existingId rid) existingIds
                in removeFromIndexFields M rid data rest
                     (if length filteredIds > 0
                      then st_put indexKey (SIds filteredIds) st
                      else st_delete indexKey st))))"

definition removeFromIndexes ::
  "model \<Rightarrow> jsval \<Rightarrow> jsobject \<Rightarrow> storage \<Rightarrow> (error + unit) \<times> storage"
where
  "removeFromIndexes M rid data st = removeFromIndexFields M rid data (indexes M) st"

section \<open>Create, find, update, delete\<close>

definition create :: "model \<Rightarrow> jsobject \<Rightarrow> storage \<Rightarrow> (error + jsobject) \<times> storage" where
  "create M data st =
     (case validateSchema M data of
        Inl e \<Rightarrow> (Inl e, st)
      | Inr u \<Rightarrow>
          (let rid = get_prop data ''id'' in
           if falsy rid then (Inl (Error ''Record must have an id field''), st)
           else
             (let key = getRecordKey M rid in
              case st_get key st of
                Some existing \<Rightarrow>
                  (Inl (Error (''Record with id '' @ quoted (to_string M rid) @ '' already exists'')),
                   st)
              | None \<Rightarrow>
                  (case serialize M data of
                     Inl e \<Rightarrow> (Inl e, st)
                   | Inr serialized \<Rightarrow>
                       (case updateIndexes M rid data (st_put key (SRec serialized) st) of
                          (Inl e, st') \<Rightarrow> (Inl e, st')
                        | (Inr u, st') \<Rightarrow> (Inr data, st'))))))"

definition find :: "model \<Rightarrow> jsval \<Rightarrow> storage \<Rightarrow> jsobject option" where
  \<comment> \<open>\<open>None\<close> is the \<^verbatim>\<open>null\<close> of a missing record; whatever a key holds is an
      object, hence truthy\<close>
  "find M rid st =
     (case st_get (getRecordKey M rid) st of
        None \<Rightarrow> None
      | Some data \<Rightarrow> Some (deserialize M (stored_entries data)))"

definition spread :: "jsobject \<Rightarrow> jsobject \<Rightarrow> jsobject" where
  \<comment> \<open>\<^verbatim>\<open>{ ...a, ...b }\<close>\<close>
  "spread a b = foldl (\<lambda>acc kv. AList.update (fst kv) (snd kv) acc) a b"

definition indexedFieldsChanged :: "model \<Rightarrow> jsobject \<Rightarrow> jsobject \<Rightarrow> bool" where
  "indexedFieldsChanged M updates existing =
     list_ex (\<lambda>field. has_key field updates
                       \<and> \<not> strict_eq (get_prop updates field) (get_prop existing field))
       (indexes M)"

definition update ::
  "model \<Rightarrow> jsval \<Rightarrow> jsobject \<Rightarrow> storage \<Rightarrow> (error + jsobject) \<times> storage"
where
  "update M rid updates st =
     (case find M rid st of
        None \<Rightarrow> (Inl (Error (''Record with id '' @ quoted (to_string M rid) @ '' not found'')), st)
      | Some existing \<Rightarrow>
          (let updated = spread existing updates in
           case validateSchema M updated of
             Inl e \<Rightarrow> (Inl e, st)
           | Inr u \<Rightarrow>
               (let indexedChanged = indexedFieldsChanged M updates existing in
                case (if indexedChanged then removeFromIndexes M rid existing st
                      else (Inr (), st)) of
                  (Inl e, st1) \<Rightarrow> (Inl e, st1)
                | (Inr u, st1) \<Rightarrow>
                    (case serialize M updated of
                       Inl e \<Rightarrow> (Inl e, st1)
                     | Inr serialized \<Rightarrow>
                         (case (if indexedChanged
                                then updateIndexes M rid updated
                                       (st_put (getRecordKey M rid) (SRec serialized) st1)
                                else (Inr (), st_put (getRecordKey M rid) (SRec serialized) st1)) of
                            (Inl e, st2) \<Rightarrow> (Inl e, st2)
                          | (Inr u, st2) \<Rightarrow> (Inr updated, st2))))))"

definition delete :: "model \<Rightarrow> jsval \<Rightarrow> storage \<Rightarrow> (error + bool) \<times> storage" where
  "delete M rid st =
     (case find M rid st of
        None \<Rightarrow> (Inr False, st)
      | Some existing \<Rightarrow>
          (case removeFromIndexes M rid existing st of
             (Inl e, st1) \<Rightarrow> (Inl e, st1)
           | (Inr u, st1) \<Rightarrow> (Inr True, st_delete (getRecordKey M rid) st1)))"

section \<open>Queries\<close>

datatype direction = Asc | Desc

record QueryOptions =
  opt_where :: "jsobject option"
  opt_after :: "int option option"
  opt_before :: "int option option"
  opt_limit :: "int option option"
  opt_orderBy :: "(string \<times> direction) option"

text \<open>
  The options a caller may leave out are \<open>None\<close>.  A bound is a Date, so \<open>Some None\<close>
  is an Invalid Date given as a bound; a limit is a number, so \<open>Some None\<close> is NaN.
\<close>

definition indexLookup :: "model \<Rightarrow> QueryOptions \<Rightarrow> storage \<Rightarrow> error + jsval list" where
  \<comment> \<open>the candidates taken from an index: those of the first entry of the where clause, when
      its field is indexed.  When the key holds a record instead of an array, the loop over the
      candidates throws.\<close>
  "indexLookup M options st =
     (case opt_where options of
        None \<Rightarrow> Inr []
      | Some whereEntries \<Rightarrow>
          (case whereEntries of
             [] \<Rightarrow> Inr []
           | (field, v) # others \<Rightarrow>
               (if field \<in> set (indexes M)
                then (case getIndexKey M field v of
                        Inl e \<Rightarrow> Inl e
                      | Inr indexKey \<Rightarrow>
                          (case st_get indexKey st of
                             None \<Rightarrow> Inr []
                           | Some (SIds ids) \<Rightarrow> Inr ids
                           | Some (SRec obj) \<Rightarrow> Inl (TypeError ''candidateIds is not iterable'')))
                else Inr [])))"

definition scanIds :: "model \<Rightarrow> storage \<Rightarrow> jsval list" where
  "scanIds M st =
     (let prefix = tableName M @ '':''
      in map (\<lambda>kv. VString (replace_first prefix (fst kv))) (st_list prefix st))"

definition candidateIds :: "model \<Rightarrow> QueryOptions \<Rightarrow> storage \<Rightarrow> error + jsval list" where
  "candidateIds M options st =
     (case indexLookup M options st of
        Inl e \<Rightarrow> Inl e
      | Inr fromIndex \<Rightarrow>
          (if length fromIndex = 0 \<and> opt_where options = None
           then Inr (scanIds M st) else Inr fromIndex))"

definition loadRecords :: "model \<Rightarrow> jsval list \<Rightarrow> storage \<Rightarrow> jsobject list" where
  "loadRecords M ids st = List.map_filter (\<lambda>rid. find M rid st) ids"

definition matchesWhere :: "jsobject \<Rightarrow> jsobject \<Rightarrow> bool" where
  "matchesWhere conditions record =
     list_all (\<lambda>kv. strict_eq (get_prop record (fst kv)) (snd kv)) conditions"

definition date_le :: "int option \<Rightarrow> int option \<Rightarrow> bool" where
  \<comment> \<open>\<^verbatim>\<open>a <= b\<close> on two Dates: false when either is invalid\<close>
  "date_le a b = (case (a, b) of (Some x, Some y) \<Rightarrow> x \<le> y | _ \<Rightarrow> False)"

definition rejectedByDate :: "int option option \<Rightarrow> int option option \<Rightarrow> jsval \<Rightarrow> bool" where
  "rejectedByDate afterBound beforeBound v =
     (case v of
        VDate dateValue \<Rightarrow>
          (case afterBound of Some a \<Rightarrow> date_le dateValue a | None \<Rightarrow> False)
          \<or> (case beforeBound of Some b \<Rightarrow> date_le b dateValue | None \<Rightarrow> False)
      | _ \<Rightarrow> False)"

definition inDateRange ::
  "model \<Rightarrow> int option option \<Rightarrow> int option option \<Rightarrow> jsobject \<Rightarrow> bool"
where
  "inDateRange M afterBound beforeBound record =
     list_all (\<lambda>ft. \<not> (snd ft = FDate \<and> rejectedByDate afterBound beforeBound (get_prop record (fst ft))))
       (schema M)"

subsection \<open>Sorting\<close>

fun str_less :: "string \<Rightarrow> string \<Rightarrow> bool" where
  \<comment> \<open>\<^verbatim>\<open><\<close> on two strings, by code units\<close>
  "str_less [] [] = False"
| "str_less [] (b # bs) = True"
| "str_less (a # as) [] = False"
| "str_less (a # as) (b # bs) =
     (if (of_char a :: nat) < of_char b then True
      else if (of_char b :: nat) < of_char a then False
      else str_less as bs)"

definition is_space :: "char \<Rightarrow> bool" where
  "is_space c = (c \<in> set [CHR '' '', CHR 0x09, CHR 0x0A, CHR 0x0D])"

definition digits_value :: "string \<Rightarrow> int option" where
  "digits_value s =
     (if s \<noteq> [] \<and> list_all (\<lambda>c. c \<in> set ''0123456789'') s
      then Some (foldl (\<lambda>acc c. 10 * acc + (of_char c - 48)) 0 s) else None)"

definition string_to_number :: "string \<Rightarrow> int option" where
  \<comment> \<open>\<^verbatim>\<open>Number(s)\<close>, within the model's numbers: the empty string is 0, a decimal
      integer is its value, any other text is NaN\<close>
  "string_to_number s =
     (let t = rev (dropWhile is_space (rev (dropWhile is_space s))) in
      case t of
        [] \<Rightarrow> Some 0
      | c # cs \<Rightarrow>
          (if c = CHR ''-'' then map_option uminus (digits_value cs)
           else if c = CHR ''+'' then digits_value cs
           else digits_value t))"

fun to_primitive :: "model \<Rightarrow> jsval \<Rightarrow> jsval" where
  \<comment> \<open>the operand of a relational comparison: a Date is its time value, any other object
      its string\<close>
  "to_primitive M (VDate d) = VNumber d"
| "to_primitive M (VObject ps) = VString (to_string M (VObject ps))"
| "to_primitive M (VArray xs) = VString (to_string M (VArray xs))"
| "to_primitive M v = v"

fun to_number :: "jsval \<Rightarrow> int option" where
  "to_number VNull = Some 0"
| "to_number (VBoolean b) = Some (if b then 1 else 0)"
| "to_number (VNumber n) = n"
| "to_number (VString s) = string_to_number s"
| "to_number _ = None"

definition js_less :: "model \<Rightarrow> jsval \<Rightarrow> jsval \<Rightarrow> bool" where
  \<comment> \<open>\<^verbatim>\<open>a < b\<close>\<close>
  "js_less M a b =
     (case (to_primitive M a, to_primitive M b) of
        (VString x, VString y) \<Rightarrow> str_less x y
      | (pa, pb) \<Rightarrow>
          (case (to_number pa, to_number pb) of
             (Some x, Some y) \<Rightarrow> x < y
           | _ \<Rightarrow> False))"

definition compareBy :: "model \<Rightarrow> string \<Rightarrow> direction \<Rightarrow> jsobject \<Rightarrow> jsobject \<Rightarrow> int" where
  "compareBy M field dir a b =
     (let aVal = get_prop a field; bVal = get_prop b field;
          comparison = (if js_less M bVal aVal then 1 else if js_less M aVal bVal then - 1 else 0)
      in if dir = Desc then - comparison else comparison)"

fun insert_by :: "('a \<Rightarrow> 'a \<Rightarrow> int) \<Rightarrow> 'a \<Rightarrow> 'a list \<Rightarrow> 'a list" where
  "insert_by c x [] = [x]"
| "insert_by c x (y # ys) = (if c x y \<le> 0 then x # y # ys else y # insert_by c x ys)"

definition array_sort :: "('a \<Rightarrow> 'a \<Rightarrow> int) \<Rightarrow> 'a list \<Rightarrow> 'a list" where
  \<comment> \<open>\<^verbatim>\<open>Array.prototype.sort\<close> is stable; with a consistent comparator its result is
      that of a stable insertion sort\<close>
  "array_sort c xs = foldr (insert_by c) xs []"

definition slice0 :: "int \<Rightarrow> 'a list \<Rightarrow> 'a list" where
  \<comment> \<open>\<^verbatim>\<open>xs.slice(0, n)\<close>: a negative end counts from the end of the array\<close>
  "slice0 n xs = (if n < 0 then take (length xs - nat (- n)) xs else take (nat n) xs)"

definition query :: "model \<Rightarrow> QueryOptions \<Rightarrow> storage \<Rightarrow> error + jsobject list" where
  "query M options st =
     (case candidateIds M options st of
        Inl e \<Rightarrow> Inl e
      | Inr ids \<Rightarrow>
          (let records = loadRecords M ids st;
               matching = (case opt_where options of
                             Some conditions \<Rightarrow> filter (matchesWhere conditions) records
                           | None \<Rightarrow> records);
               ranged = (if opt_after options \<noteq> None \<or> opt_before options \<noteq> None
                         then filter (inDateRange M (opt_after options) (opt_before options))
                                matching
                         else matching);
               sorted = (case opt_orderBy options of
                           Some (field, dir) \<Rightarrow> array_sort (compareBy M field dir) ranged
                         | None \<Rightarrow> ranged)
           in Inr (case opt_limit options of
                     Some (Some n) \<Rightarrow> (if n \<noteq> 0 then slice0 n sorted else sorted)
                   | _ \<Rightarrow> sorted)))"

section \<open>The Date methods in UTC\<close>

text \<open>
  An instance of the three platform parameters, used to run the model on concrete records:
  the ISO 8601 form that \<^verbatim>\<open>toISOString\<close> prints
  (\<^verbatim>\<open>YYYY-MM-DDTHH:mm:ss.sssZ\<close>, years outside 0..9999 with a sign and six
  digits), the reading of that form back to a time value, and the string form of a Date in
  a UTC time zone.  The calendar is the proleptic Gregorian one, computed from the day
  number by eras of 400 years.
\<close>

definition civil_from_days :: "int \<Rightarrow> int \<times> int \<times> int" where
  "civil_from_days z0 =
     (let z = z0 + 719468;
          era = z div 146097;
          doe = z mod 146097;
          yoe = (doe - doe div 1460 + doe div 36524 - doe div 146096) div 365;
          doy = doe - (365 * yoe + yoe div 4 - yoe div 100);
          mp = (5 * doy + 2) div 153;
          d = doy - (153 * mp + 2) div 5 + 1;
          m = (if mp < 10 then mp + 3 else mp - 9)
      in (yoe + era * 400 + (if m \<le> 2 then 1 else 0), m, d))"

definition days_from_civil :: "int \<Rightarrow> int \<Rightarrow> int \<Rightarrow> int" where
  "days_from_civil y0 m d =
     (let y = (if m \<le> 2 then y0 - 1 else y0);
          era = y div 400;
          yoe = y mod 400;
          doy = (153 * (if m > 2 then m - 3 else m + 9) + 2) div 5 + d - 1;
          doe = yoe * 365 + yoe div 4 - yoe div 100 + doy
      in era * 146097 + doe - 719468)"

definition pad :: "nat \<Rightarrow> int \<Rightarrow> string" where
  "pad w n = replicate (w - length (show_digits n)) (CHR ''0'') @ show_digits n"

definition isoString :: "int \<Rightarrow> string" where
  "isoString t =
     (let ms = t mod 86400000 in
      case civil_from_days (t div 86400000) of
        (y, m, d) \<Rightarrow>
          (if 0 \<le> y \<and> y \<le> 9999 then pad 4 y
           else (if y < 0 then ''-'' else ''+'') @ pad 6 (abs y))
          @ ''-'' @ pad 2 m @ ''-'' @ pad 2 d
          @ ''T'' @ pad 2 (ms div 3600000) @ '':'' @ pad 2 (ms div 60000 mod 60)
          @ '':'' @ pad 2 (ms div 1000 mod 60) @ ''.'' @ pad 3 (ms mod 1000) @ ''Z'')"

definition parseISO :: "string \<Rightarrow> int option" where
  "parseISO s =
     (let signed = (s \<noteq> [] \<and> hd s \<in> set ''+-'');
          ys = (if signed then take 6 (tl s) else take 4 s);
          r = (if signed then drop 7 s else drop 4 s)
      in if length r = 20 \<and> map (\<lambda>i. r ! i) [0, 3, 6, 9, 12, 15, 19] = ''--T::.Z''
         then (case (digits_value ys, digits_value (take 2 (drop 1 r)),
                     digits_value (take 2 (drop 4 r)), digits_value (take 2 (drop 7 r)),
                     digits_value (take 2 (drop 10 r)), digits_value (take 2 (drop 13 r)),
                     digits_value (take 3 (drop 16 r))) of
                 (Some y, Some mo, Some d, Some h, Some mi, Some sec, Some ms) \<Rightarrow>
                   Some (days_from_civil (if hd s = CHR ''-'' then - y else y) mo d * 86400000
                         + h * 3600000 + mi * 60000 + sec * 1000 + ms)
               | _ \<Rightarrow> None)
         else None)"

definition utcString :: "int option \<Rightarrow> string" where
  "utcString d =
     (case d of
        None \<Rightarrow> ''Invalid Date''
      | Some t \<Rightarrow>
          (let days = t div 86400000; ms = t mod 86400000 in
           case civil_from_days days of
             (y, m, dd) \<Rightarrow>
               [''Sun'', ''Mon'', ''Tue'', ''Wed'', ''Thu'', ''Fri'', ''Sat''] ! nat ((days + 4) mod 7)
               @ '' '' @ [''Jan'', ''Feb'', ''Mar'', ''Apr'', ''May'', ''Jun'',
                          ''Jul'', ''Aug'', ''Sep'', ''Oct'', ''Nov'', ''Dec''] ! nat (m - 1)
               @ '' '' @ pad 2 dd @ '' '' @ (if y < 0 then ''-'' else []) @ pad 4 (abs y)
               @ '' '' @ pad 2 (ms div 3600000) @ '':'' @ pad 2 (ms div 60000 mod 60)
               @ '':'' @ pad 2 (ms div 1000 mod 60)
               @ '' GMT+0000 (Coordinated Universal Time)''))"

definition utc_model :: "string \<Rightarrow> SchemaDefinition \<Rightarrow> string list \<Rightarrow> model" where
  "utc_model name sch idx =
     \<lparr> tableName = name, schema = sch, indexes = idx,
       toISOString = isoString, newDate = parseISO, dateToString = utcString \<rparr>"

section \<open>Sequences of operations\<close>

datatype command = CreateOp jsobject | UpdateOp jsval jsobject | DeleteOp jsval

fun exec :: "model \<Rightarrow> command \<Rightarrow> storage \<Rightarrow> storage" where
  \<comment> \<open>the storage an operation leaves behind, whether it returns or throws\<close>
  "exec M (CreateOp data) st = snd (create M data st)"
| "exec M (UpdateOp rid updates) st = snd (update M rid updates st)"
| "exec M (DeleteOp rid) st = snd (delete M rid st)"

definition run :: "model \<Rightarrow> command list \<Rightarrow> storage \<Rightarrow> storage" where
  "run M cmds st = foldl (\<lambda>s c. exec M c s) st cmds"

section \<open>The test suite's model and some records\<close>

definition Event :: model where
  "Event = utc_model ''event''
     [(''id'', FString), (''workspaceId'', FString), (''timestamp'', FDate),
      (''type'', FString), (''data'', FObject)]
     [''workspaceId'', ''timestamp'']"

definition no_options :: QueryOptions where
  "no_options = \<lparr> opt_where = None, opt_after = None, opt_before = None,
                  opt_limit = None, opt_orderBy = None \<rparr>"

definition evt_1 :: jsobject where
  \<comment> \<open>timestamp 2024-01-01T10:00:00.000Z\<close>
  "evt_1 = [(''id'', VString ''evt_1''), (''workspaceId'', VString ''ws_abc''),
            (''timestamp'', VDate (Some 1704103200000)), (''type'', VString ''click''),
            (''data'', VObject [])]"

definition evt_2 :: jsobject where
  \<comment> \<open>timestamp 2024-01-05T10:00:00.000Z\<close>
  "evt_2 = [(''id'', VString ''evt_2''), (''workspaceId'', VString ''ws_abc''),
            (''timestamp'', VDate (Some 1704448800000)), (''type'', VString ''pageview''),
            (''data'', VObject [])]"

definition evt_3 :: jsobject where
  \<comment> \<open>timestamp 2024-01-03T10:00:00.000Z\<close>
  "evt_3 = [(''id'', VString ''evt_3''), (''workspaceId'', VString ''ws_xyz''),
            (''timestamp'', VDate (Some 1704276000000)), (''type'', VString ''click''),
            (''data'', VObject [])]"

definition three_events :: storage where
  "three_events = run Event [CreateOp evt_1, CreateOp evt_2, CreateOp evt_3] empty_storage"

definition no_id :: jsobject where
  "no_id = [(''id'', VString []), (''workspaceId'', VString ''ws_abc''),
            (''timestamp'', VDate (Some 1704103200000)), (''type'', VString ''click''),
            (''data'', VObject [])]"


section \<open>Conditions on records\<close>




definition no_empty_ids :: "storage \<Rightarrow> bool" where
  \<comment> \<open>no key holds an empty array of identifiers, and none was ever put\<close>
  "no_empty_ids st =
     (list_all (\<lambda>kv. snd kv \<noteq> SIds []) (entries st)
      \<and> list_all (\<lambda>w. case w of Put k v \<Rightarrow> v \<noteq> SIds [] | Delete k \<Rightarrow> True) (writes st))"

section \<open>Basic facts\<close>

lemma st_get_put: "st_get k (st_put k' v st) = (if k = k' then Some v else st_get k st)"
  by (simp add: st_get_def st_put_def update_conv')

lemma st_get_delete: "st_get k (st_delete k' st) = (if k = k' then None else st_get k st)"
  by (simp add: st_get_def st_delete_def delete_conv')

lemma updateIndexFields_keeps_record:
  "updateIndexFields M rid data fs st = (Inr u, st') \<Longrightarrow> st_get k st = Some (SRec s)
   \<Longrightarrow> st_get k st' = Some (SRec s)"
proof (induction fs arbitrary: st)
  case Nil
  then show ?case by simp
next
  case (Cons f fs)
  from Cons.prems(1) obtain ik where ik: "getIndexKey M f (get_prop data f) = Inr ik"
    by (auto split: sum.splits)
  show ?case
  proof (cases "st_get ik st")
    case None
    with Cons.prems ik have "k \<noteq> ik" by auto
    with Cons.prems ik None show ?thesis
      by (auto intro!: Cons.IH simp: st_get_put)
  next
    case (Some v)
    with Cons.prems ik obtain ids where v: "v = SIds ids"
      by (cases v) auto
    with Cons.prems ik Some have "k \<noteq> ik" by auto
    with Cons.prems ik Some v show ?thesis
      by (auto intro!: Cons.IH simp: st_get_put split: if_splits)
  qed
qed




lemma array_sort_Nil: "array_sort c [] = []"
  by (simp add: array_sort_def)

lemma slice0_Nil: "slice0 n [] = []"
  by (simp add: slice0_def)

section \<open>Candidate acquisition\<close>

text \<open>
  C2.  When the where clause is not empty, its first entry alone decides the candidates.
  If the field of that entry is not indexed, the candidate list is empty and the query
  returns no record (whatever the other entries are, indexed or not).  If it is indexed,
  the candidates are the identifiers held by the index entry of that field and value.
\<close>

theorem query_first_field_decides:
  assumes "opt_where options = Some ((field, v) # others)"
  shows "(field \<notin> set (indexes M)
            \<longrightarrow> candidateIds M options st = Inr [] \<and> query M options st = Inr [])
       \<and> (field \<in> set (indexes M)
            \<longrightarrow> (\<forall>k ids. getIndexKey M field v = Inr k \<and> st_get k st = Some (SIds ids)
                    \<longrightarrow> candidateIds M options st = Inr ids))"
  using assms
  by (auto simp: candidateIds_def indexLookup_def query_def loadRecords_def
                 List.map_filter_simps array_sort_Nil slice0_Nil
           split: option.splits prod.splits)

theorem query_first_field_decides_witness:
  "''type'' \<notin> set (indexes Event)
   \<and> query Event (no_options\<lparr>opt_where := Some [(''type'', VString ''click'')]\<rparr>) three_events
     = Inr []
   \<and> ''workspaceId'' \<in> set (indexes Event)
   \<and> candidateIds Event
        (no_options\<lparr>opt_where := Some [(''workspaceId'', VString ''ws_abc'')]\<rparr>) three_events
     = Inr [VString ''evt_1'', VString ''evt_2'']"
proof -
  have a: "''type'' \<notin> set (indexes Event)" by code_simp
  have b: "''workspaceId'' \<in> set (indexes Event)" by code_simp
  have k: "getIndexKey Event ''workspaceId'' (VString ''ws_abc'')
             = Inr ''index:event:workspaceId:ws_abc''" by code_simp
  have e: "st_get ''index:event:workspaceId:ws_abc'' three_events
             = Some (SIds [VString ''evt_1'', VString ''evt_2''])" by code_simp
  from query_first_field_decides
         [of "no_options\<lparr>opt_where := Some [(''type'', VString ''click'')]\<rparr>"
             "''type''" "VString ''click''" "[]" Event three_events] a
  have q: "query Event (no_options\<lparr>opt_where := Some [(''type'', VString ''click'')]\<rparr>)
             three_events = Inr []"
    by simp
  from query_first_field_decides
         [of "no_options\<lparr>opt_where := Some [(''workspaceId'', VString ''ws_abc'')]\<rparr>"
             "''workspaceId''" "VString ''ws_abc''" "[]" Event three_events] b k e
  have c: "candidateIds Event
             (no_options\<lparr>opt_where := Some [(''workspaceId'', VString ''ws_abc'')]\<rparr>)
             three_events = Inr [VString ''evt_1'', VString ''evt_2'']"
    by simp
  from a q b c show ?thesis by simp
qed

section \<open>The date range\<close>



section \<open>Create\<close>

text \<open>
  C10.  \<open>create\<close> rejects a record whose \<open>id\<close> is falsy (missing, empty string, 0, NaN,
  null, false): the call throws and leaves the storage as it was, with no write made.
  When the record passes the schema validation, the error is
  \<^verbatim>\<open>Record must have an id field\<close>.
\<close>

theorem create_rejects_falsy_id:
  assumes "falsy (get_prop data ''id'')"
  shows "(\<exists>e. create M data st = (Inl e, st))
       \<and> (validateSchema M data = Inr ()
            \<longrightarrow> create M data st = (Inl (Error ''Record must have an id field''), st))"
  using assms by (simp add: create_def split: sum.splits)

theorem create_rejects_falsy_id_witness:
  "falsy (get_prop no_id ''id'')
   \<and> validateSchema Event no_id = Inr ()
   \<and> create Event no_id three_events
      = (Inl (Error ''Record must have an id field''), three_events)"
proof -
  have a: "falsy (get_prop no_id ''id'')" by code_simp
  have v: "validateSchema Event no_id = Inr ()" by code_simp
  from create_rejects_falsy_id [OF a, of Event three_events] v
  have "create Event no_id three_events
          = (Inl (Error ''Record must have an id field''), three_events)"
    by simp
  with a v show ?thesis by simp
qed

text \<open>
  C6.  After a successful \<open>create\<close>, a second \<open>create\<close> with the same identifier throws
  and leaves the storage exactly as the first call left it: the stored record, every index
  entry and the trace of writes are unchanged.  When the second record passes the schema
  validation (which runs first), the error is the already-exists error.
\<close>

theorem create_twice_fails:
  assumes first: "create M r1 st = (Inr out, st1)"
    and same: "get_prop r2 ''id'' = get_prop r1 ''id''"
  shows "(\<exists>e. create M r2 st1 = (Inl e, st1))
       \<and> (validateSchema M r2 = Inr ()
            \<longrightarrow> create M r2 st1
                = (Inl (Error (''Record with id '' @ quoted (to_string M (get_prop r2 ''id''))
                               @ '' already exists'')), st1))"
proof -
  let ?key = "getRecordKey M (get_prop r1 ''id'')"
  from first have truthy: "\<not> falsy (get_prop r1 ''id'')"
    by (auto simp: create_def Let_def split: sum.splits if_splits)
  from first obtain s where "st_get ?key st1 = Some (SRec s)"
    by (auto simp: create_def Let_def st_get_put
             split: sum.splits if_splits option.splits prod.splits
             dest!: updateIndexFields_keeps_record[where k = ?key] simp: updateIndexes_def)
  with truthy same show ?thesis
    by (simp add: create_def Let_def split: sum.splits)
qed

theorem create_twice_fails_witness:
  "fst (create Event evt_1 empty_storage) = Inr evt_1
   \<and> create Event evt_1 (snd (create Event evt_1 empty_storage))
     = (Inl (Error (''Record with id '' @ quoted ''evt_1'' @ '' already exists'')),
        snd (create Event evt_1 empty_storage))"
proof -
  have f: "fst (create Event evt_1 empty_storage) = Inr evt_1" by code_simp
  have first: "create Event evt_1 empty_storage
                 = (Inr evt_1, snd (create Event evt_1 empty_storage))"
    using f by (metis prod.collapse)
  have valid: "validateSchema Event evt_1 = Inr ()" by code_simp
  have ident: "to_string Event (get_prop evt_1 ''id'') = ''evt_1''" by code_simp
  from create_twice_fails [OF first refl] valid ident
  have "create Event evt_1 (snd (create Event evt_1 empty_storage))
     = (Inl (Error (''Record with id '' @ quoted ''evt_1'' @ '' already exists'')),
        snd (create Event evt_1 empty_storage))"
    by simp
  with f show ?thesis by (rule conjI)
qed

section \<open>The full scan\<close>

lemma replace_first_starts: "starts_with p xs \<Longrightarrow> replace_first p xs = drop (length p) xs"
  by (cases xs) (auto simp: starts_with_def)

lemma replace_first_prefix: "replace_first p (p @ s) = s"
  by (simp add: replace_first_starts starts_with_def)

lemma scan_without_where:
  assumes "opt_where options = None"
  shows "candidateIds M options st = Inr (scanIds M st)"
  using assms by (simp add: candidateIds_def indexLookup_def)

lemma scan_lists_every_record:
  assumes "st_get (getRecordKey M (VString i)) st = Some v"
  shows "VString i \<in> set (scanIds M st)"
proof -
  let ?p = "tableName M @ '':''"
  from assms have "(?p @ i, v) \<in> set (entries st)"
    by (auto simp: st_get_def getRecordKey_def dest: map_of_SomeD)
  then have "(?p @ i, v) \<in> set (st_list ?p st)"
    by (simp add: st_list_def starts_with_def)
  then have "VString (replace_first ?p (?p @ i)) \<in> set (scanIds M st)"
    unfolding scanIds_def Let_def by (metis (no_types, lifting) fst_conv image_eqI set_map)
  then show ?thesis by (simp only: replace_first_prefix)
qed

text \<open>
  Without a where clause the candidates are the keys under the table's prefix, the prefix
  removed, and the key of every stored record is among them.
\<close>

text \<open>
  C3.  The scan of the table is made only when the options carry no where clause at all.
  A where clause that is present and empty (the query builder's \<^verbatim>\<open>where({})\<close>,
  which the worker sends when no filter is given) leaves the candidate list empty: on a
  storage holding three events such a query returns nothing, although the scan lists the
  three identifiers and the query without a where clause returns the three records.
\<close>

theorem empty_where_skips_scan:
  "candidateIds Event (no_options\<lparr>opt_where := Some []\<rparr>) three_events = Inr []
   \<and> query Event (no_options\<lparr>opt_where := Some []\<rparr>) three_events = Inr []
   \<and> scanIds Event three_events = [VString ''evt_1'', VString ''evt_2'', VString ''evt_3'']
   \<and> query Event no_options three_events = Inr [evt_1, evt_2, evt_3]"
  by code_simp

theorem empty_where_skips_scan_witness:
  "query Event (no_options\<lparr>opt_where := Some []\<rparr>) three_events
     \<noteq> query Event no_options three_events"
  using empty_where_skips_scan by simp

section \<open>The limit\<close>

lemma limit_positive:
  assumes "0 < n"
  shows "query M (options\<lparr>opt_limit := Some (Some n)\<rparr>) st
       = map_sum id (take (nat n)) (query M (options\<lparr>opt_limit := None\<rparr>) st)"
  using assms
  by (auto simp: query_def candidateIds_def indexLookup_def slice0_def Let_def
           split: sum.splits option.splits)

text \<open>
  C8.  A limit of 0 is not applied: the guard \<^verbatim>\<open>if (options.limit)\<close> takes it for
  no limit, and the query returns every record instead of none.  (A positive limit
  \<open>n\<close> keeps the first \<open>n\<close> records, as \<open>limit_positive\<close> shows.)
\<close>

theorem limit_zero_returns_all:
  "query Event (no_options\<lparr>opt_limit := Some (Some 0)\<rparr>) three_events
     = Inr [evt_1, evt_2, evt_3]
   \<and> query Event (no_options\<lparr>opt_limit := Some (Some 2)\<rparr>) three_events
     = Inr [evt_1, evt_2]"
  by code_simp

theorem limit_zero_returns_all_witness:
  "query Event (no_options\<lparr>opt_limit := Some (Some 0)\<rparr>) three_events
     \<noteq> Inr (take 0 [evt_1, evt_2, evt_3])"
  using limit_zero_returns_all by simp

section \<open>The record codec\<close>








section \<open>No empty index entry\<close>

lemma set_update_subset: "set (AList.update k v xs) \<subseteq> insert (k, v) (set xs)"
  by (induction xs) auto

lemma set_delete_subset: "set (AList.delete k xs) \<subseteq> set xs"
  by (induction xs) auto

lemma no_empty_put: "no_empty_ids st \<Longrightarrow> v \<noteq> SIds [] \<Longrightarrow> no_empty_ids (st_put k v st)"
  using set_update_subset[of k v "entries st"]
  by (auto simp: no_empty_ids_def st_put_def list_all_iff)

lemma no_empty_delete: "no_empty_ids st \<Longrightarrow> no_empty_ids (st_delete k st)"
  using set_delete_subset[of k "entries st"]
  by (auto simp: no_empty_ids_def st_delete_def list_all_iff)

lemma no_empty_updateIndexFields:
  "no_empty_ids st \<Longrightarrow> no_empty_ids (snd (updateIndexFields M rid data fs st))"
proof (induction fs arbitrary: st)
  case Nil
  then show ?case by simp
next
  case (Cons f fs)
  show ?case
  proof (cases "getIndexKey M f (get_prop data f)")
    case (Inl e)
    with Cons.prems show ?thesis by simp
  next
    case (Inr ik)
    show ?thesis
    proof (cases "st_get ik st")
      case None
      with Inr Cons.prems show ?thesis
        by (simp add: Cons.IH no_empty_put)
    next
      case (Some v)
      with Inr Cons.prems show ?thesis
        by (cases v) (simp_all add: Cons.IH no_empty_put)
    qed
  qed
qed

lemma no_empty_removeFromIndexFields:
  "no_empty_ids st \<Longrightarrow> no_empty_ids (snd (removeFromIndexFields M rid data fs st))"
proof (induction fs arbitrary: st)
  case Nil
  then show ?case by simp
next
  case (Cons f fs)
  show ?case
  proof (cases "getIndexKey M f (get_prop data f)")
    case (Inl e)
    with Cons.prems show ?thesis by simp
  next
    case (Inr ik)
    show ?thesis
    proof (cases "st_get ik st")
      case None
      with Inr Cons.prems show ?thesis
        by (simp add: Cons.IH no_empty_delete)
    next
      case (Some v)
      with Inr Cons.prems show ?thesis
        by (cases v) (auto simp: Let_def intro!: Cons.IH no_empty_put no_empty_delete)
    qed
  qed
qed

lemma no_empty_create: "no_empty_ids st \<Longrightarrow> no_empty_ids (snd (create M data st))"
proof -
  assume st: "no_empty_ids st"
  have u: "no_empty_ids (snd (updateIndexes M rid d (st_put k (SRec s) st)))" for rid d k s
    using st by (simp add: updateIndexes_def no_empty_updateIndexFields no_empty_put)
  show ?thesis
    unfolding create_def Let_def
    apply (auto split: option.splits sum.splits prod.splits simp: st)
    using u apply (metis snd_conv)+
    done
qed

lemma no_empty_update: "no_empty_ids st \<Longrightarrow> no_empty_ids (snd (update M rid updates st))"
proof -
  assume st: "no_empty_ids st"
  have r: "no_empty_ids (snd (removeFromIndexes M rid ex st))" for ex
    using st by (simp add: removeFromIndexes_def no_empty_removeFromIndexFields)
  have u: "no_empty_ids s1 \<Longrightarrow> no_empty_ids (snd (updateIndexes M rid up (st_put k (SRec s) s1)))"
    for s1 up k s
    by (simp add: updateIndexes_def no_empty_updateIndexFields no_empty_put)
  show ?thesis
    unfolding update_def Let_def
    apply (auto split: option.splits sum.splits prod.splits simp: st no_empty_put)
    using r u apply (metis snd_conv)+
    done
qed

lemma no_empty_delete_op: "no_empty_ids st \<Longrightarrow> no_empty_ids (snd (delete M rid st))"
proof -
  assume st: "no_empty_ids st"
  have r: "no_empty_ids (snd (removeFromIndexes M rid ex st))" for ex
    using st by (simp add: removeFromIndexes_def no_empty_removeFromIndexFields)
  show ?thesis
    unfolding delete_def
    apply (auto split: option.splits sum.splits prod.splits simp: st)
    using r apply (metis snd_conv no_empty_delete)+
    done
qed

lemma no_empty_exec: "no_empty_ids st \<Longrightarrow> no_empty_ids (exec M c st)"
  by (cases c) (simp_all add: no_empty_create no_empty_update no_empty_delete_op)

lemma no_empty_run: "no_empty_ids st \<Longrightarrow> no_empty_ids (run M cmds st)"
  unfolding run_def by (induction cmds arbitrary: st) (simp_all add: no_empty_exec)

lemma no_empty_st_get: "no_empty_ids st \<Longrightarrow> st_get k st \<noteq> Some (SIds [])"
  by (auto simp: no_empty_ids_def st_get_def list_all_iff dest!: map_of_SomeD)

text \<open>
  C9.  \<open>removeFromIndexes\<close> never stores an empty array of identifiers: when removing
  the identifier leaves an entry empty, the key is deleted.  Hence no storage reached from
  the empty one by any sequence of create, update and delete calls (returning or throwing)
  holds an index entry with an empty array, and none was ever written.
\<close>

theorem no_empty_index_entry:
  "no_empty_ids (run M cmds empty_storage)
   \<and> st_get k (run M cmds empty_storage) \<noteq> Some (SIds [])
   \<and> (no_empty_ids st \<longrightarrow> no_empty_ids (snd (removeFromIndexes M rid data st)))"
proof -
  have "no_empty_ids empty_storage" by (simp add: no_empty_ids_def empty_storage_def)
  then have "no_empty_ids (run M cmds empty_storage)" by (rule no_empty_run)
  then show ?thesis
    by (simp add: no_empty_st_get removeFromIndexes_def no_empty_removeFromIndexFields)
qed

theorem no_empty_index_entry_witness:
  "no_empty_ids (run Event [CreateOp evt_1, DeleteOp (VString ''evt_1'')] empty_storage)
   \<and> st_get ''index:event:workspaceId:ws_abc'' (run Event [CreateOp evt_1] empty_storage)
       = Some (SIds [VString ''evt_1''])
   \<and> st_get ''index:event:workspaceId:ws_abc''
        (run Event [CreateOp evt_1, DeleteOp (VString ''evt_1'')] empty_storage) = None
   \<and> entries (run Event [CreateOp evt_1, DeleteOp (VString ''evt_1'')] empty_storage) = []"
proof -
  have a: "st_get ''index:event:workspaceId:ws_abc'' (run Event [CreateOp evt_1] empty_storage)
             = Some (SIds [VString ''evt_1''])" by code_simp
  have b: "st_get ''index:event:workspaceId:ws_abc''
             (run Event [CreateOp evt_1, DeleteOp (VString ''evt_1'')] empty_storage) = None"
    by code_simp
  have c: "entries (run Event [CreateOp evt_1, DeleteOp (VString ''evt_1'')] empty_storage) = []"
    by code_simp
  from no_empty_index_entry
         [of Event "[CreateOp evt_1, DeleteOp (VString ''evt_1'')]" "[]" empty_storage VNull "[]"]
  have "no_empty_ids (run Event [CreateOp evt_1, DeleteOp (VString ''evt_1'')] empty_storage)"
    by simp
  with a b c show ?thesis by simp
qed

end
